theory Spec2Isabelle
  imports Main "HOL-Library.Sublist"
begin

section \<open>The upload-and-analyze pipeline of \<^verbatim>\<open>app/routes/upload.tsx\<close>\<close>

text \<open>
  The route component owns two pieces of React state, \<^verbatim>\<open>isProcessing\<close> and
  \<^verbatim>\<open>statusText\<close>, and one asynchronous function, \<^verbatim>\<open>handleAnalyze\<close>, which drives the
  collaborators (\<^verbatim>\<open>auth\<close>, \<^verbatim>\<open>fs\<close>, \<^verbatim>\<open>convertPdfToImage\<close>, \<^verbatim>\<open>generateUUID\<close>, \<^verbatim>\<open>kv\<close>,
  \<^verbatim>\<open>ai\<close>, \<^verbatim>\<open>navigate\<close>) strictly one after the other. The embedding passes the state
  explicitly, records every effect in a trace, and takes the behaviour of each collaborator
  as a field of an environment record, so that a theorem over every environment is a
  theorem over every behaviour of the collaborators.

  What the embedding takes for granted: every awaited promise settles, that is, it either
  fulfils (\<open>Returns\<close>) or rejects (\<open>Throws\<close>); the values the collaborators return have
  their declared TypeScript types, and what the function does with a value of another
  shape is not modelled; and \<^verbatim>\<open>console.log\<close>, \<^verbatim>\<open>console.error\<close>, the two React
  setters and \<^verbatim>\<open>navigate\<close> do not throw. The \<^verbatim>\<open>console\<close> calls are left out of the
  trace.
\<close>

subsection \<open>Values\<close>

text \<open>
  What a \<^verbatim>\<open>throw\<close> or a rejected promise carries. The handlers only ask
  \<^verbatim>\<open>e instanceof Error\<close> and then put \<^verbatim>\<open>e.message\<close> into a template literal, which
  converts it to a string. \<open>ErrorObj m\<close> is an \<^verbatim>\<open>Error\<close> whose message converts to the
  string \<open>m\<close> (a string converts to itself); \<open>BadMessage e\<close> is an \<^verbatim>\<open>Error\<close> whose message
  does not convert: the conversion throws \<open>e\<close> (for a \<^verbatim>\<open>Symbol\<close>, a \<^verbatim>\<open>TypeError\<close>);
  \<open>NonError\<close> is any value that is not an \<^verbatim>\<open>Error\<close>.
\<close>

datatype thrown = ErrorObj string | BadMessage thrown | NonError

datatype 'a outcome = Returns 'a | Throws thrown

text \<open>
  The values \<^verbatim>\<open>JSON.parse\<close> produces. The numeric carrier \<open>'n\<close> is left open (the
  program never computes with a number); an object is its list of properties.
\<close>

datatype 'n json =
    JNull
  | JBool bool
  | JNum 'n
  | JStr string
  | JArr "'n json list"
  | JObj "(string \<times> 'n json) list"

text \<open>The fields of a browser \<^verbatim>\<open>File\<close> that the function reads (lines 47-52, 80-85).\<close>

record File =
  file_name :: string
  file_size :: nat
  file_type :: string
  file_lastModified :: nat

text \<open>The argument of \<^verbatim>\<open>handleAnalyze\<close> (lines 21-31).\<close>

record request =
  req_companyName :: string
  req_jobTitle :: string
  req_jobDescription :: string
  req_file :: File

text \<open>\<^verbatim>\<open>fs.upload\<close> fulfils with an item, of which only \<^verbatim>\<open>path\<close> is read, or with nothing.\<close>

record fsitem =
  path :: string

text \<open>The result of \<^verbatim>\<open>convertPdfToImage\<close>: \<^verbatim>\<open>{ imageUrl, file: File | null, error?: string }\<close>.\<close>

record pdf_conversion_result =
  conv_imageUrl :: string
  conv_file :: "File option"
  conv_error :: "string option"

text \<open>
  \<^verbatim>\<open>feedback.message.content\<close> is a string or an array of blocks; of a block only
  \<^verbatim>\<open>text\<close> is read.
\<close>

record block =
  block_text :: string

datatype content = Str string | Blocks "block list"

record ai_response =
  message_content :: content

text \<open>The object \<^verbatim>\<open>data\<close> of lines 111-119; \<open>id'\<close> is its field \<^verbatim>\<open>id\<close>.\<close>

record 'n resume_data =
  id' :: string
  resumePath :: string
  imagePath :: string
  companyName :: string
  jobTitle :: string
  jobDescription :: string
  feedback :: "'n json"

subsection \<open>Collaborators\<close>

text \<open>
  One field per collaborator. \<open>fs_upload\<close> and \<open>kv_set\<close> are called twice in a run;
  their first argument is the position of the call within the run (0 or 1), so that a
  stateful service may answer the second call differently from the first.
  \<^verbatim>\<open>prepareInstructions\<close> (from \<^verbatim>\<open>constants\<close>), \<^verbatim>\<open>JSON.parse\<close> and \<^verbatim>\<open>JSON.stringify\<close>
  are functions of their arguments.
\<close>

record 'n env =
  isAuthenticated :: bool
  fs_upload :: "nat \<Rightarrow> File \<Rightarrow> fsitem option outcome"
  convertPdfToImage :: "File \<Rightarrow> pdf_conversion_result outcome"
  generateUUID :: "string outcome"
  kv_set :: "nat \<Rightarrow> string \<Rightarrow> string \<Rightarrow> unit outcome"
  ai_feedback :: "string \<Rightarrow> string \<Rightarrow> ai_response option outcome"
  prepareInstructions :: "string \<Rightarrow> string \<Rightarrow> string"
  JSON_parse :: "string \<Rightarrow> 'n json outcome"
  JSON_stringify :: "'n resume_data \<Rightarrow> string"

subsection \<open>State and trace\<close>

datatype event =
    SetIsProcessing bool
  | SetStatusText string
  | Upload File
  | Convert File
  | GenerateUUID
  | KvSet string string
  | Feedback string string
  | Navigate string

record session =
  isProcessing :: bool
  statusText :: string

record state = session +
  trace :: "event list"

text \<open>\<^verbatim>\<open>useState(false)\<close> and \<^verbatim>\<open>useState(" ")\<close>, lines 13-14.\<close>

definition idle_session :: session where
  "idle_session = \<lparr>isProcessing = False, statusText = '' ''\<rparr>"

definition begin_run :: "session \<Rightarrow> state" where
  "begin_run sess = \<lparr>isProcessing = isProcessing sess, statusText = statusText sess, trace = []\<rparr>"

definition emit :: "event \<Rightarrow> state \<Rightarrow> state" where
  "emit e s = s\<lparr>trace := trace s @ [e]\<rparr>"

definition setIsProcessing :: "bool \<Rightarrow> state \<Rightarrow> state" where
  "setIsProcessing b s = emit (SetIsProcessing b) (s\<lparr>isProcessing := b\<rparr>)"

definition setStatusText :: "string \<Rightarrow> state \<Rightarrow> state" where
  "setStatusText t s = emit (SetStatusText t) (s\<lparr>statusText := t\<rparr>)"

text \<open>How a block of statements ends: it runs to its end or returns, or it throws.\<close>

datatype completion = Done | Thrown thrown

subsection \<open>Library functions of the language\<close>

text \<open>\<^verbatim>\<open>String.prototype.includes\<close>: a case-sensitive search for a contiguous substring.\<close>

fun str_includes :: "string \<Rightarrow> string \<Rightarrow> bool" where
  "str_includes [] sub = (sub = [])"
| "str_includes (c # cs) sub = (prefix sub (c # cs) \<or> str_includes cs sub)"

text \<open>
  \<^verbatim>\<open>${e instanceof Error ? e.message : dflt}\<close> inside a template literal: the string it
  contributes, or what the conversion of the message throws.
\<close>

fun errorMessage :: "thrown \<Rightarrow> string \<Rightarrow> string outcome" where
  "errorMessage (ErrorObj m) dflt = Returns m"
| "errorMessage (BadMessage e) dflt = Throws e"
| "errorMessage NonError dflt = Returns dflt"

text \<open>\<^verbatim>\<open>x || dflt\<close> on an optional string: \<^verbatim>\<open>undefined\<close> and \<^verbatim>\<open>""\<close> are both falsy.\<close>

fun orElse :: "string option \<Rightarrow> string \<Rightarrow> string" where
  "orElse None dflt = dflt"
| "orElse (Some m) dflt = (if m = [] then dflt else m)"

text \<open>
  The message of the \<^verbatim>\<open>TypeError\<close> raised by \<^verbatim>\<open>content[0].text\<close> on an empty array. Its
  wording is the engine's (this is V8's); no theorem depends on it.
\<close>

definition typeErrorMessage :: string where
  "typeErrorMessage = ''Cannot read properties of undefined (reading 'text')''"

subsection \<open>The body of \<^verbatim>\<open>handleAnalyze\<close>, stage by stage\<close>

text \<open>
  Lines 133-136: the text of the response, from either shape of \<^verbatim>\<open>content\<close>.
\<close>

definition feedbackText :: "ai_response \<Rightarrow> string outcome" where
  "feedbackText r =
     (case message_content r of
        Str t \<Rightarrow> Returns t
      | Blocks [] \<Rightarrow> Throws (ErrorObj typeErrorMessage)
      | Blocks (b # bs) \<Rightarrow> Returns (block_text b))"

text \<open>
  Lines 138-142: parse the text, store the record again, redirect. The identifier is read
  back from the record, whose \<^verbatim>\<open>id\<close> is the \<^verbatim>\<open>uuid\<close> of line 110.
\<close>

definition persistFinal :: "'n env \<Rightarrow> 'n resume_data \<Rightarrow> string \<Rightarrow> state \<Rightarrow> completion \<times> state" where
  "persistFinal env data ftext s =
     (case JSON_parse env ftext of
        Throws e \<Rightarrow> (Thrown e, s)
      | Returns v \<Rightarrow>
          let data' = data\<lparr>feedback := v\<rparr>;
              s1 = emit (KvSet (''resume:'' @ id' data') (JSON_stringify env data')) s
          in (case kv_set env 1 (''resume:'' @ id' data') (JSON_stringify env data') of
                Throws e \<Rightarrow> (Thrown e, s1)
              | Returns _ \<Rightarrow>
                  (Done, emit (Navigate (''/resume/'' @ id' data'))
                           (setStatusText ''Analysis complete, redirecting...'' s1))))"

text \<open>Lines 122-136: ask for feedback; nothing returned ends the run.\<close>

definition analyze :: "'n env \<Rightarrow> 'n resume_data \<Rightarrow> state \<Rightarrow> completion \<times> state" where
  "analyze env data s =
     (let s1 = setStatusText ''Analyzing...'' s;
          instructions = prepareInstructions env (jobTitle data) (jobDescription data);
          s2 = emit (Feedback (resumePath data) instructions) s1
      in (case ai_feedback env (resumePath data) instructions of
            Throws e \<Rightarrow> (Thrown e, s2)
          | Returns None \<Rightarrow> (Done, setStatusText ''Error: Failed to analyze resume'' s2)
          | Returns (Some r) \<Rightarrow>
              (case feedbackText r of
                 Throws e \<Rightarrow> (Thrown e, s2)
               | Returns ftext \<Rightarrow> persistFinal env data ftext s2)))"

text \<open>Lines 111-119: the record as first built, with an empty feedback.\<close>

definition draftData :: "request \<Rightarrow> string \<Rightarrow> fsitem \<Rightarrow> fsitem \<Rightarrow> 'n resume_data" where
  "draftData req uuid uploadedFile uploadedImage =
     \<lparr>id' = uuid,
      resumePath = path uploadedFile,
      imagePath = path uploadedImage,
      companyName = req_companyName req,
      jobTitle = req_jobTitle req,
      jobDescription = req_jobDescription req,
      feedback = JStr ''''\<rparr>"

text \<open>Lines 109-120: generate the identifier, build the record and store it.\<close>

definition persistDraft :: "'n env \<Rightarrow> request \<Rightarrow> fsitem \<Rightarrow> fsitem \<Rightarrow> state \<Rightarrow> completion \<times> state" where
  "persistDraft env req uploadedFile uploadedImage s =
     (let s1 = emit GenerateUUID (setStatusText ''Preparing data...'' s)
      in (case generateUUID env of
            Throws e \<Rightarrow> (Thrown e, s1)
          | Returns uuid \<Rightarrow>
              let data = draftData req uuid uploadedFile uploadedImage;
                  s2 = emit (KvSet (''resume:'' @ uuid) (JSON_stringify env data)) s1
              in (case kv_set env 0 (''resume:'' @ uuid) (JSON_stringify env data) of
                    Throws e \<Rightarrow> (Thrown e, s2)
                  | Returns _ \<Rightarrow> analyze env data s2)))"

text \<open>
  Lines 92-107: upload the image; the inner \<^verbatim>\<open>catch\<close> reports a rejection itself, and
  what the conversion of the message throws there leaves the inner handler.
\<close>

definition uploadImage :: "'n env \<Rightarrow> request \<Rightarrow> fsitem \<Rightarrow> File \<Rightarrow> state \<Rightarrow> completion \<times> state" where
  "uploadImage env req uploadedFile img s =
     (let s1 = emit (Upload img) (setStatusText ''Uploading the image...'' s)
      in (case fs_upload env 1 img of
            Throws e \<Rightarrow>
              (case errorMessage e ''Unknown error'' of
                 Throws e' \<Rightarrow> (Thrown e', s1)
               | Returns m \<Rightarrow>
                   (Done, setStatusText (''Error: Failed to upload image - '' @ m) s1))
          | Returns None \<Rightarrow>
              (Done, setStatusText ''Error: Failed to upload image - no result returned'' s1)
          | Returns (Some uploadedImage) \<Rightarrow> persistDraft env req uploadedFile uploadedImage s1))"

text \<open>Lines 69-90: rasterize; no file and an empty file are reported apart.\<close>

definition convert :: "'n env \<Rightarrow> request \<Rightarrow> fsitem \<Rightarrow> state \<Rightarrow> completion \<times> state" where
  "convert env req uploadedFile s =
     (let s1 = emit (Convert (req_file req)) (setStatusText ''Converting to image...'' s)
      in (case convertPdfToImage env (req_file req) of
            Throws e \<Rightarrow> (Thrown e, s1)
          | Returns imageFile \<Rightarrow>
              (case conv_file imageFile of
                 None \<Rightarrow>
                   (Done, setStatusText (''Error: Failed to convert PDF to image - ''
                                           @ orElse (conv_error imageFile) ''Unknown error'') s1)
               | Some img \<Rightarrow>
                   if file_size img = 0
                   then (Done, setStatusText ''Error: Converted image file is empty'' s1)
                   else uploadImage env req uploadedFile img s1)))"

text \<open>Lines 54-67: upload the original file.\<close>

definition uploadResume :: "'n env \<Rightarrow> request \<Rightarrow> state \<Rightarrow> completion \<times> state" where
  "uploadResume env req s =
     (let s1 = emit (Upload (req_file req)) (setStatusText ''Uploading the file...'' s)
      in (case fs_upload env 0 (req_file req) of
            Throws e \<Rightarrow>
              (case errorMessage e ''Unknown error'' of
                 Throws e' \<Rightarrow> (Thrown e', s1)
               | Returns m \<Rightarrow>
                   (Done, setStatusText (''Error: Failed to upload file - '' @ m) s1))
          | Returns None \<Rightarrow>
              (Done, setStatusText ''Error: Failed to upload file - no result returned'' s1)
          | Returns (Some uploadedFile) \<Rightarrow> convert env req uploadedFile s1))"

text \<open>Lines 35-45, then the rest of the \<^verbatim>\<open>try\<close> block.\<close>

definition tryBlock :: "'n env \<Rightarrow> request \<Rightarrow> state \<Rightarrow> completion \<times> state" where
  "tryBlock env req s =
     (if \<not> isAuthenticated env
      then (Done, setStatusText ''Error: Please sign in to upload files'' s)
      else if \<not> str_includes (file_type (req_file req)) ''pdf''
      then (Done, setStatusText ''Error: Please upload a PDF file'' s)
      else uploadResume env req s)"

text \<open>
  Lines 143-145: the handler of the outer \<^verbatim>\<open>catch\<close>. The argument of \<^verbatim>\<open>setStatusText\<close>
  is evaluated first; if the conversion of the message throws, the status is not set and
  the handler itself throws.
\<close>

definition catchBlock :: "thrown \<Rightarrow> state \<Rightarrow> completion \<times> state" where
  "catchBlock e s =
     (case errorMessage e ''Unknown error occurred'' of
        Throws e' \<Rightarrow> (Thrown e', s)
      | Returns m \<Rightarrow> (Done, setStatusText (''Error: '' @ m) s))"

text \<open>Lines 146-148: the \<^verbatim>\<open>finally\<close> block.\<close>

definition finallyBlock :: "state \<Rightarrow> completion \<times> state" where
  "finallyBlock s = (Done, setIsProcessing False s)"

text \<open>
  \<^verbatim>\<open>try { body } catch (e) { handler }\<close>: what the body throws goes to the handler, and
  what the handler throws goes on. \<^verbatim>\<open>try { body } finally { cleanup }\<close>: the cleanup
  runs after the body however it ended; if the cleanup throws, that replaces the
  completion of the body.
\<close>

definition try_catch ::
  "(state \<Rightarrow> completion \<times> state) \<Rightarrow> (thrown \<Rightarrow> state \<Rightarrow> completion \<times> state) \<Rightarrow> state \<Rightarrow> completion \<times> state" where
  "try_catch body handler s =
     (case body s of
        (Done, s') \<Rightarrow> (Done, s')
      | (Thrown e, s') \<Rightarrow> handler e s')"

definition try_finally ::
  "(state \<Rightarrow> completion \<times> state) \<Rightarrow> (state \<Rightarrow> completion \<times> state) \<Rightarrow> state \<Rightarrow> completion \<times> state" where
  "try_finally body cleanup s =
     (case body s of
        (c, s') \<Rightarrow>
          (case cleanup s' of
             (Done, s'') \<Rightarrow> (c, s'')
           | (Thrown e, s'') \<Rightarrow> (Thrown e, s'')))"

text \<open>Lines 21-149. The completion is what the caller of \<^verbatim>\<open>handleAnalyze\<close> gets.\<close>

definition handleAnalyze :: "'n env \<Rightarrow> request \<Rightarrow> session \<Rightarrow> completion \<times> state" where
  "handleAnalyze env req sess =
     try_finally (try_catch (tryBlock env req) catchBlock) finallyBlock
       (setIsProcessing True (begin_run sess))"

subsection \<open>Reading a trace\<close>

fun upload_calls :: "event list \<Rightarrow> File list" where
  "upload_calls [] = []"
| "upload_calls (Upload f # es) = f # upload_calls es"
| "upload_calls (e # es) = upload_calls es"

fun kv_calls :: "event list \<Rightarrow> (string \<times> string) list" where
  "kv_calls [] = []"
| "kv_calls (KvSet k v # es) = (k, v) # kv_calls es"
| "kv_calls (e # es) = kv_calls es"

fun status_texts :: "event list \<Rightarrow> string list" where
  "status_texts [] = []"
| "status_texts (SetStatusText t # es) = t # status_texts es"
| "status_texts (e # es) = status_texts es"

fun navigations :: "event list \<Rightarrow> string list" where
  "navigations [] = []"
| "navigations (Navigate u # es) = u # navigations es"
| "navigations (e # es) = navigations es"

text \<open>The Record Store after a list of \<^verbatim>\<open>set\<close> calls, each taken to have been applied.\<close>

fun apply_sets :: "(string \<times> string) list \<Rightarrow> (string \<rightharpoonup> string) \<Rightarrow> (string \<rightharpoonup> string)" where
  "apply_sets [] m = m"
| "apply_sets ((k, v) # kvs) m = apply_sets kvs (m(k \<mapsto> v))"

subsection \<open>What a run has reported so far\<close>

text \<open>
  Predicates for reasoning about a run stage by stage. A state is \<open>in_progress\<close> when no
  status text set so far starts with \<^verbatim>\<open>Error:\<close> or is the idle text, and \<^verbatim>\<open>navigate\<close>
  has not been called; it is \<open>tracked\<close> when a status text has been set and the one shown
  is the last one set. A completed block is \<open>settled\<close> when the state is tracked, no
  status text before the last starts with \<^verbatim>\<open>Error:\<close>, and the status shown is the
  completion message if \<^verbatim>\<open>navigate\<close> was called and an \<^verbatim>\<open>Error:\<close> message if it was
  not; a block that threw is settled when its state is tracked and still in progress
  (nothing has been reported yet).
\<close>

definition in_progress :: "state \<Rightarrow> bool" where
  "in_progress s =
     (list_all (\<lambda>t. \<not> prefix ''Error:'' t \<and> t \<noteq> '' '') (status_texts (trace s))
      \<and> navigations (trace s) = [])"

definition tracked :: "state \<Rightarrow> bool" where
  "tracked s =
     (status_texts (trace s) \<noteq> [] \<and> last (status_texts (trace s)) = statusText s)"

definition settled :: "completion \<times> state \<Rightarrow> bool" where
  "settled r =
     (case r of
        (Done, s) \<Rightarrow>
          tracked s
          \<and> list_all (\<lambda>t. \<not> prefix ''Error:'' t) (butlast (status_texts (trace s)))
          \<and> (if navigations (trace s) = [] then prefix ''Error:'' (statusText s)
             else statusText s = ''Analysis complete, redirecting...'')
      | (Thrown e, s) \<Rightarrow> in_progress s \<and> tracked s)"

subsection \<open>Runs without a failure, and failures the handlers can report\<close>





subsection \<open>A concrete environment\<close>

text \<open>
  An environment in which every step succeeds, used to evaluate the function on concrete
  inputs. \<open>demo_parse\<close> is \<^verbatim>\<open>JSON.parse\<close> on the two texts of the end-to-end scenarios
  and rejects every other text; \<open>demo_stringify\<close> stands for \<^verbatim>\<open>JSON.stringify\<close>: it
  keeps the identifier and tells an empty feedback from a parsed one.
\<close>

definition demo_parse :: "string \<Rightarrow> int json outcome" where
  \<open>demo_parse t =
     (if t = ''{"score":80}'' then Returns (JObj [(''score'', JNum 80)])
      else if t = ''{"score":50}'' then Returns (JObj [(''score'', JNum 50)])
      else Throws (ErrorObj ''Unexpected token''))\<close>

definition demo_stringify :: "int resume_data \<Rightarrow> string" where
  "demo_stringify d =
     id' d @ (case feedback d of
                JStr t \<Rightarrow> '':string:'' @ t
              | JObj [(k, JNum n)] \<Rightarrow>
                  '':object:'' @ k @ (if n = 50 then ''=50'' else if n = 80 then ''=80'' else ''=?'')
              | _ \<Rightarrow> '':other'')"

definition demo_pdf :: File where
  "demo_pdf = \<lparr>file_name = ''cv.pdf'', file_size = 1024, file_type = ''application/pdf'',
               file_lastModified = 0\<rparr>"

definition demo_png :: File where
  "demo_png = \<lparr>file_name = ''cv.png'', file_size = 2048, file_type = ''image/png'',
               file_lastModified = 0\<rparr>"

definition demo_request :: request where
  "demo_request = \<lparr>req_companyName = ''Acme'', req_jobTitle = ''Engineer'',
                   req_jobDescription = ''Builds things'', req_file = demo_pdf\<rparr>"

definition demo_env :: "int env" where
  \<open>demo_env =
     \<lparr>isAuthenticated = True,
      fs_upload = (\<lambda>n f. Returns (Some \<lparr>path = ''/store/'' @ file_name f\<rparr>)),
      convertPdfToImage =
        (\<lambda>f. Returns \<lparr>conv_imageUrl = ''blob:1'', conv_file = Some demo_png, conv_error = None\<rparr>),
      generateUUID = Returns ''id-1'',
      kv_set = (\<lambda>n k v. Returns ()),
      ai_feedback = (\<lambda>p i. Returns (Some \<lparr>message_content = Str ''{"score":80}''\<rparr>)),
      prepareInstructions = (\<lambda>t d. t @ '': '' @ d),
      JSON_parse = demo_parse,
      JSON_stringify = demo_stringify\<rparr>\<close>

text \<open>What the uploads, the conversion and the first assembly of the record give there.\<close>

definition demo_pdf_item :: fsitem where
  "demo_pdf_item = \<lparr>path = ''/store/cv.pdf''\<rparr>"

definition demo_png_item :: fsitem where
  "demo_png_item = \<lparr>path = ''/store/cv.png''\<rparr>"

definition demo_conversion :: pdf_conversion_result where
  "demo_conversion = \<lparr>conv_imageUrl = ''blob:1'', conv_file = Some demo_png, conv_error = None\<rparr>"

definition demo_draft :: "int resume_data" where
  "demo_draft = draftData demo_request ''id-1'' demo_pdf_item demo_png_item"

text \<open>Variations of it, one per failure looked at below, and of the request.\<close>

definition unauthenticated_env :: "int env" where
  "unauthenticated_env = demo_env\<lparr>isAuthenticated := False\<rparr>"


definition failing_store_env :: "int env" where
  "failing_store_env = demo_env\<lparr>kv_set := \<lambda>n k v. Throws (ErrorObj ''quota exceeded'')\<rparr>"

definition no_feedback_env :: "int env" where
  "no_feedback_env = demo_env\<lparr>ai_feedback := \<lambda>p i. Returns None\<rparr>"


definition blocks_feedback_env :: "int env" where
  \<open>blocks_feedback_env =
     demo_env\<lparr>ai_feedback :=
       \<lambda>p i. Returns (Some \<lparr>message_content = Blocks [\<lparr>block_text = ''{"score":50}''\<rparr>]\<rparr>)\<rparr>\<close>

definition string_feedback_env :: "int env" where
  \<open>string_feedback_env =
     demo_env\<lparr>ai_feedback := \<lambda>p i. Returns (Some \<lparr>message_content = Str ''{"score":50}''\<rparr>)\<rparr>\<close>





definition png_request :: request where
  "png_request = demo_request\<lparr>req_file := demo_png\<rparr>"

definition upper_case_request :: request where
  "upper_case_request = demo_request\<lparr>req_file := demo_pdf\<lparr>file_type := ''application/PDF''\<rparr>\<rparr>"

definition pdfx_request :: request where
  "pdfx_request = demo_request\<lparr>req_file := demo_pdf\<lparr>file_type := ''text/pdfx''\<rparr>\<rparr>"

section \<open>Properties\<close>

subsection \<open>Auxiliary facts\<close>

lemmas stage_defs = handleAnalyze_def try_finally_def try_catch_def tryBlock_def catchBlock_def
  finallyBlock_def uploadResume_def convert_def uploadImage_def persistDraft_def analyze_def
  persistFinal_def

lemmas state_defs = setStatusText_def setIsProcessing_def emit_def begin_run_def

lemmas demo_defs = demo_env_def demo_request_def demo_pdf_def demo_png_def demo_parse_def
  demo_pdf_item_def demo_png_item_def demo_conversion_def demo_draft_def draftData_def
  idle_session_def

text \<open>\<open>str_includes\<close> is the substring test: \<open>sublist sub s\<close> says \<open>s = ps @ sub @ ss\<close>.\<close>

lemma str_includes_sublist: "str_includes s sub = sublist sub s"
  by (induction s) (auto simp: sublist_Cons_right)

lemma status_texts_append: "status_texts (xs @ ys) = status_texts xs @ status_texts ys"
  by (induction xs rule: status_texts.induct) simp_all

lemma navigations_append: "navigations (xs @ ys) = navigations xs @ navigations ys"
  by (induction xs rule: navigations.induct) simp_all

lemma upload_calls_append: "upload_calls (xs @ ys) = upload_calls xs @ upload_calls ys"
  by (induction xs rule: upload_calls.induct) simp_all

lemma kv_calls_append: "kv_calls (xs @ ys) = kv_calls xs @ kv_calls ys"
  by (induction xs rule: kv_calls.induct) simp_all

subsubsection \<open>Every stage only appends to the trace\<close>

lemma emit_extends: "prefix tr (trace s) \<Longrightarrow> prefix tr (trace (emit e s))"
  by (simp add: emit_def prefix_prefix)

lemma setStatusText_extends: "prefix tr (trace s) \<Longrightarrow> prefix tr (trace (setStatusText t s))"
  by (simp add: setStatusText_def emit_def prefix_prefix)

lemma setIsProcessing_extends: "prefix tr (trace s) \<Longrightarrow> prefix tr (trace (setIsProcessing b s))"
  by (simp add: setIsProcessing_def emit_def prefix_prefix)

lemmas extends = emit_extends setStatusText_extends setIsProcessing_extends

lemma persistFinal_extends:
  "prefix tr (trace s) \<Longrightarrow> prefix tr (trace (snd (persistFinal env data ftext s)))"
  by (simp add: persistFinal_def Let_def extends split: outcome.splits)

lemma analyze_extends: "prefix tr (trace s) \<Longrightarrow> prefix tr (trace (snd (analyze env data s)))"
  by (simp add: analyze_def Let_def extends persistFinal_extends split: outcome.splits option.splits)

lemma persistDraft_extends:
  "prefix tr (trace s) \<Longrightarrow> prefix tr (trace (snd (persistDraft env req uploadedFile uploadedImage s)))"
  by (simp add: persistDraft_def Let_def extends analyze_extends split: outcome.splits)

lemma uploadImage_extends:
  "prefix tr (trace s) \<Longrightarrow> prefix tr (trace (snd (uploadImage env req uploadedFile img s)))"
  by (simp add: uploadImage_def Let_def extends persistDraft_extends split: outcome.splits option.splits)

lemma convert_extends:
  "prefix tr (trace s) \<Longrightarrow> prefix tr (trace (snd (convert env req uploadedFile s)))"
  by (simp add: convert_def Let_def extends uploadImage_extends split: outcome.splits option.splits)

lemma uploadResume_starts:
  "prefix (trace s @ [SetStatusText ''Uploading the file...'', Upload (req_file req)])
     (trace (snd (uploadResume env req s)))"
proof -
  have "prefix (trace s @ [SetStatusText ''Uploading the file...'', Upload (req_file req)])
          (trace (emit (Upload (req_file req)) (setStatusText ''Uploading the file...'' s)))"
    by (simp add: state_defs)
  then show ?thesis
    by (simp add: uploadResume_def Let_def extends convert_extends split: outcome.splits option.splits)
qed

lemma try_catch_extends:
  "prefix tr (trace (snd (body s))) \<Longrightarrow> prefix tr (trace (snd (try_catch body catchBlock s)))"
  by (cases "body s")
     (simp add: try_catch_def catchBlock_def extends split: completion.splits outcome.splits)

lemma try_finally_extends:
  "prefix tr (trace (snd (body s))) \<Longrightarrow> prefix tr (trace (snd (try_finally body finallyBlock s)))"
  by (cases "body s") (simp add: try_finally_def finallyBlock_def extends)

text \<open>An authenticated run on a file whose type passes the check goes on to upload that file.\<close>

lemma valid_input_is_uploaded:
  assumes "isAuthenticated env" and "str_includes (file_type (req_file req)) ''pdf''"
  shows "prefix [SetIsProcessing True, SetStatusText ''Uploading the file...'', Upload (req_file req)]
           (trace (snd (handleAnalyze env req sess)))"
proof -
  have "prefix (trace (setIsProcessing True (begin_run sess))
                  @ [SetStatusText ''Uploading the file...'', Upload (req_file req)])
          (trace (snd (tryBlock env req (setIsProcessing True (begin_run sess)))))"
    using assms by (simp add: tryBlock_def uploadResume_starts)
  then show ?thesis
    unfolding handleAnalyze_def
    by (intro try_finally_extends try_catch_extends) (simp add: state_defs)
qed

text \<open>
  When the Rasterizer produces no image the run reports the conversion failure, with the
  cause it was given or \<^verbatim>\<open>Unknown error\<close>, and uploads nothing more.
\<close>

lemma no_image_is_conversion_failure:
  assumes "isAuthenticated env"
    and "str_includes (file_type (req_file req)) ''pdf''"
    and "fs_upload env 0 (req_file req) = Returns (Some uploadedFile)"
    and "convertPdfToImage env (req_file req) = Returns imageFile"
    and "conv_file imageFile = None"
  shows "statusText (snd (handleAnalyze env req sess))
           = ''Error: Failed to convert PDF to image - '' @ orElse (conv_error imageFile) ''Unknown error''
       \<and> upload_calls (trace (snd (handleAnalyze env req sess))) = [req_file req]"
  using assms by (simp add: stage_defs state_defs)

subsubsection \<open>Every stage ends settled\<close>

lemma in_progress_setStatusText:
  "in_progress (setStatusText t s) = (in_progress s \<and> \<not> prefix ''Error:'' t \<and> t \<noteq> '' '')"
  by (auto simp: in_progress_def state_defs status_texts_append navigations_append)

lemma in_progress_emit:
  "in_progress (emit e s) =
     (in_progress s
      \<and> (case e of SetStatusText t \<Rightarrow> \<not> prefix ''Error:'' t \<and> t \<noteq> '' ''
          | Navigate u \<Rightarrow> False | _ \<Rightarrow> True))"
  by (cases e) (auto simp: in_progress_def state_defs status_texts_append navigations_append)

lemma tracked_setStatusText: "tracked (setStatusText t s)"
  by (simp add: tracked_def state_defs status_texts_append)

lemma tracked_emit:
  "tracked (emit e s) = (case e of SetStatusText t \<Rightarrow> statusText s = t | _ \<Rightarrow> tracked s)"
  by (cases e) (auto simp: tracked_def state_defs status_texts_append)

lemma settled_Thrown: "settled (Thrown e, s) = (in_progress s \<and> tracked s)"
  by (simp add: settled_def)

lemma settled_error:
  "in_progress s \<Longrightarrow> prefix ''Error:'' t \<Longrightarrow> settled (Done, setStatusText t s)"
  by (simp add: settled_def in_progress_def tracked_def state_defs status_texts_append
        navigations_append list_all_iff)

lemma settled_complete:
  "in_progress s \<Longrightarrow>
   settled (Done, emit (Navigate u) (setStatusText ''Analysis complete, redirecting...'' s))"
  by (simp add: settled_def in_progress_def tracked_def state_defs status_texts_append
        navigations_append list_all_iff)

lemma settled_setIsProcessing: "settled (c, setIsProcessing b s) = settled (c, s)"
  by (cases c)
     (simp_all add: settled_def in_progress_def tracked_def state_defs status_texts_append
        navigations_append)

lemmas progress = in_progress_emit in_progress_setStatusText tracked_emit tracked_setStatusText

lemma persistFinal_settled:
  "in_progress s \<Longrightarrow> tracked s \<Longrightarrow> settled (persistFinal env data ftext s)"
  by (simp add: persistFinal_def Let_def settled_Thrown settled_complete progress
        split: outcome.splits)

lemma analyze_settled: "in_progress s \<Longrightarrow> settled (analyze env data s)"
  by (simp add: analyze_def Let_def settled_Thrown settled_error persistFinal_settled progress
        split: outcome.splits option.splits)

lemma persistDraft_settled:
  "in_progress s \<Longrightarrow> settled (persistDraft env req uploadedFile uploadedImage s)"
  by (simp add: persistDraft_def Let_def settled_Thrown analyze_settled progress
        split: outcome.splits)

lemma uploadImage_settled: "in_progress s \<Longrightarrow> settled (uploadImage env req uploadedFile img s)"
  by (simp add: uploadImage_def Let_def settled_Thrown settled_error persistDraft_settled progress
        split: outcome.splits option.splits)

lemma convert_settled: "in_progress s \<Longrightarrow> settled (convert env req uploadedFile s)"
  by (simp add: convert_def Let_def settled_Thrown settled_error uploadImage_settled progress
        split: outcome.splits option.splits)

lemma uploadResume_settled: "in_progress s \<Longrightarrow> settled (uploadResume env req s)"
  by (simp add: uploadResume_def Let_def settled_Thrown settled_error convert_settled progress
        split: outcome.splits option.splits)

lemma tryBlock_settled: "in_progress s \<Longrightarrow> settled (tryBlock env req s)"
  by (simp add: tryBlock_def settled_error uploadResume_settled)

text \<open>
  The outer \<^verbatim>\<open>catch\<close> turns what the body threw into an \<^verbatim>\<open>Error:\<close> status, or throws in
  its turn and leaves the status as it was.
\<close>

lemma try_catch_settled:
  assumes "in_progress s"
  shows "settled (try_catch (tryBlock env req) catchBlock s)"
proof (cases "tryBlock env req s")
  case (Pair c s')
  with tryBlock_settled [OF assms, of env req] have st: "settled (c, s')" by simp
  show ?thesis
  proof (cases c)
    case Done
    with Pair st show ?thesis by (simp add: try_catch_def)
  next
    case (Thrown e)
    with st have ip: "in_progress s'" "tracked s'" by (simp_all add: settled_Thrown)
    show ?thesis
    proof (cases "errorMessage e ''Unknown error occurred''")
      case (Returns m)
      from ip(1) have "settled (Done, setStatusText (''Error: '' @ m) s')"
        by (rule settled_error) simp
      with Pair Thrown Returns show ?thesis by (simp add: try_catch_def catchBlock_def)
    next
      case (Throws e')
      with Pair Thrown ip show ?thesis by (simp add: try_catch_def catchBlock_def settled_Thrown)
    qed
  qed
qed

lemma in_progress_start: "in_progress (setIsProcessing True (begin_run sess))"
  by (simp add: in_progress_def state_defs)

lemma handleAnalyze_unfold:
  "handleAnalyze env req sess =
     (fst (try_catch (tryBlock env req) catchBlock (setIsProcessing True (begin_run sess))),
      setIsProcessing False
        (snd (try_catch (tryBlock env req) catchBlock (setIsProcessing True (begin_run sess)))))"
  by (cases "try_catch (tryBlock env req) catchBlock (setIsProcessing True (begin_run sess))")
     (simp add: handleAnalyze_def try_finally_def finallyBlock_def)

lemma handleAnalyze_settled:
  "settled (handleAnalyze env req sess)
   \<and> isProcessing (snd (handleAnalyze env req sess)) = False
   \<and> last (trace (snd (handleAnalyze env req sess))) = SetIsProcessing False"
  using try_catch_settled [OF in_progress_start, of env req sess]
  by (cases "try_catch (tryBlock env req) catchBlock (setIsProcessing True (begin_run sess))")
     (simp add: handleAnalyze_unfold settled_setIsProcessing, simp add: setIsProcessing_def emit_def)

subsubsection \<open>What a stage throws\<close>












subsubsection \<open>Which runs reach which stage\<close>

text \<open>
  The theorems below describe a run by what its collaborators answer. These facts tie
  such descriptions to what the run does: the Rasterizer is called only in a run that
  passed validation and whose first upload returned an item; a second upload is made only
  in a run whose conversion also returned a non-empty image; and two \<^verbatim>\<open>set\<close> calls are
  made only in a run in which every step up to the parsing of the feedback succeeded.
\<close>

lemma rasterizer_called_only_if:
  assumes "Convert f \<in> set (trace (snd (handleAnalyze env req sess)))"
  shows "isAuthenticated env \<and> str_includes (file_type (req_file req)) ''pdf''
       \<and> (\<exists>uploadedFile. fs_upload env 0 (req_file req) = Returns (Some uploadedFile))"
proof (cases "isAuthenticated env \<and> str_includes (file_type (req_file req)) ''pdf''")
  case False
  with assms show ?thesis by (cases "isAuthenticated env") (simp_all add: stage_defs state_defs Let_def split: outcome.splits)
next
  case valid: True
  show ?thesis
  proof (cases "fs_upload env 0 (req_file req)")
    case (Throws e)
    with valid assms show ?thesis by (simp add: stage_defs state_defs Let_def split: outcome.splits)
  next
    case (Returns x)
    with valid assms show ?thesis by (cases x) (simp_all add: stage_defs state_defs Let_def split: outcome.splits)
  qed
qed

lemma uploads_of_converted_run:
  assumes "isAuthenticated env"
    and "str_includes (file_type (req_file req)) ''pdf''"
    and "fs_upload env 0 (req_file req) = Returns (Some uploadedFile)"
    and "convertPdfToImage env (req_file req) = Returns imageFile"
    and "conv_file imageFile = Some img"
    and "file_size img \<noteq> 0"
  shows "upload_calls (trace (snd (handleAnalyze env req sess))) = [req_file req, img]"
  using assms
  by (simp add: stage_defs state_defs feedbackText_def Let_def
        split: outcome.splits option.splits content.splits list.splits)

lemma second_upload_only_if:
  assumes "length (upload_calls (trace (snd (handleAnalyze env req sess)))) = 2"
  shows "\<exists>uploadedFile imageFile img.
           isAuthenticated env
         \<and> str_includes (file_type (req_file req)) ''pdf''
         \<and> fs_upload env 0 (req_file req) = Returns (Some uploadedFile)
         \<and> convertPdfToImage env (req_file req) = Returns imageFile
         \<and> conv_file imageFile = Some img
         \<and> file_size img \<noteq> 0
         \<and> upload_calls (trace (snd (handleAnalyze env req sess))) = [req_file req, img]"
proof (cases "isAuthenticated env \<and> str_includes (file_type (req_file req)) ''pdf''")
  case False
  with assms show ?thesis by (cases "isAuthenticated env") (simp_all add: stage_defs state_defs Let_def split: outcome.splits)
next
  case valid: True
  show ?thesis
  proof (cases "fs_upload env 0 (req_file req)")
    case (Throws e)
    with valid assms show ?thesis by (simp add: stage_defs state_defs Let_def split: outcome.splits)
  next
    case (Returns x)
    show ?thesis
    proof (cases x)
      case None
      with Returns valid assms show ?thesis by (simp add: stage_defs state_defs Let_def split: outcome.splits)
    next
      case (Some u)
      note up = Returns [unfolded Some]
      show ?thesis
      proof (cases "convertPdfToImage env (req_file req)")
        case (Throws e)
        with up valid assms show ?thesis by (simp add: stage_defs state_defs Let_def split: outcome.splits)
      next
        case conv: (Returns c)
        show ?thesis
        proof (cases "conv_file c")
          case None
          with conv up valid assms show ?thesis by (simp add: stage_defs state_defs Let_def split: outcome.splits)
        next
          case (Some img)
          show ?thesis
          proof (cases "file_size img = 0")
            case True
            with Some conv up valid assms show ?thesis by (simp add: stage_defs state_defs Let_def split: outcome.splits)
          next
            case False
            with Some conv up valid uploads_of_converted_run [of env req u c img sess]
            show ?thesis by simp
          qed
        qed
      qed
    qed
  qed
qed

lemma two_writes_only_if:
  assumes "length (kv_calls (trace (snd (handleAnalyze env req sess)))) = 2"
  shows "\<exists>uploadedFile imageFile img uploadedImage uuid r ftext v.
           isAuthenticated env
         \<and> str_includes (file_type (req_file req)) ''pdf''
         \<and> fs_upload env 0 (req_file req) = Returns (Some uploadedFile)
         \<and> convertPdfToImage env (req_file req) = Returns imageFile
         \<and> conv_file imageFile = Some img
         \<and> file_size img \<noteq> 0
         \<and> fs_upload env 1 img = Returns (Some uploadedImage)
         \<and> generateUUID env = Returns uuid
         \<and> kv_set env 0 (''resume:'' @ uuid)
              (JSON_stringify env (draftData req uuid uploadedFile uploadedImage)) = Returns ()
         \<and> ai_feedback env (path uploadedFile)
              (prepareInstructions env (req_jobTitle req) (req_jobDescription req)) = Returns (Some r)
         \<and> feedbackText r = Returns ftext
         \<and> JSON_parse env ftext = Returns v"
  using assms
  by (auto simp add: stage_defs state_defs draftData_def Let_def
        split: if_splits outcome.splits option.splits)

subsubsection \<open>Runs that reach \<^verbatim>\<open>navigate\<close>\<close>



subsection \<open>The two writes to the Record Store\<close>

text \<open>
  C1, as stated: in every run in which both uploads succeed the Record Store receives
  exactly two \<^verbatim>\<open>set\<close> calls. It fails when the Feedback Service answers with nothing:
  the run below makes its two uploads, both answered with an item, and one \<^verbatim>\<open>set\<close>
  call, the draft (line 128 returns before line 139).
\<close>

theorem draft_only_counterexample:
  "upload_calls (trace (snd (handleAnalyze no_feedback_env demo_request idle_session)))
     = [demo_pdf, demo_png]
   \<and> fs_upload no_feedback_env 0 demo_pdf = Returns (Some demo_pdf_item)
   \<and> fs_upload no_feedback_env 1 demo_png = Returns (Some demo_png_item)
   \<and> kv_calls (trace (snd (handleAnalyze no_feedback_env demo_request idle_session)))
     = [(''resume:'' @ ''id-1'', demo_stringify demo_draft)]
   \<and> length (kv_calls (trace (snd (handleAnalyze no_feedback_env demo_request idle_session)))) \<noteq> 2"
  by (simp add: stage_defs state_defs demo_defs no_feedback_env_def)

text \<open>
  C1, amended: in every run in which both uploads succeed, the identifier is generated, the
  draft write succeeds, and the Feedback Service returns a response whose text
  \<^verbatim>\<open>JSON.parse\<close> accepts, the Record Store receives exactly two \<^verbatim>\<open>set\<close> calls, both for
  the key \<^verbatim>\<open>"resume:" + id\<close>: the first with the record whose feedback is the empty
  string, the second with the same record whose feedback is the parsed text.
\<close>

theorem two_writes_same_key:
  assumes "isAuthenticated (env :: 'n env)"
    and "str_includes (file_type (req_file req)) ''pdf''"
    and "fs_upload env 0 (req_file req) = Returns (Some uploadedFile)"
    and "convertPdfToImage env (req_file req) = Returns imageFile"
    and "conv_file imageFile = Some img"
    and "file_size img \<noteq> 0"
    and "fs_upload env 1 img = Returns (Some uploadedImage)"
    and "generateUUID env = Returns uuid"
    and "kv_set env 0 (''resume:'' @ uuid)
           (JSON_stringify env (draftData req uuid uploadedFile uploadedImage)) = Returns ()"
    and "ai_feedback env (path uploadedFile)
           (prepareInstructions env (req_jobTitle req) (req_jobDescription req)) = Returns (Some r)"
    and "feedbackText r = Returns ftext"
    and "JSON_parse env ftext = Returns v"
  shows "kv_calls (trace (snd (handleAnalyze env req sess))) =
           [(''resume:'' @ uuid, JSON_stringify env (draftData req uuid uploadedFile uploadedImage)),
            (''resume:'' @ uuid,
             JSON_stringify env ((draftData req uuid uploadedFile uploadedImage)\<lparr>feedback := v\<rparr>))]
       \<and> feedback (draftData req uuid uploadedFile uploadedImage :: 'n resume_data) = JStr ''''"
  using assms
  by (cases "kv_set env 1 (''resume:'' @ uuid)
         (JSON_stringify env ((draftData req uuid uploadedFile uploadedImage)\<lparr>feedback := v\<rparr>))")
     (simp_all add: stage_defs state_defs draftData_def split: outcome.splits)

theorem two_writes_same_key_witness:
  \<open>feedbackText \<lparr>message_content = Str ''{"score":80}''\<rparr> = Returns ''{"score":80}''
   \<and> JSON_parse demo_env ''{"score":80}'' = Returns (JObj [(''score'', JNum 80)])
   \<and> kv_calls (trace (snd (handleAnalyze demo_env demo_request idle_session))) =
       [(''resume:'' @ ''id-1'', demo_stringify demo_draft),
        (''resume:'' @ ''id-1'', demo_stringify (demo_draft\<lparr>feedback := JObj [(''score'', JNum 80)]\<rparr>))]
   \<and> feedback demo_draft = JStr ''''\<close>
  using two_writes_same_key [where env = demo_env and req = demo_request
      and uploadedFile = demo_pdf_item
      and imageFile = demo_conversion
      and img = demo_png
      and uploadedImage = demo_png_item
      and uuid = \<open>''id-1''\<close>
      and r = \<open>\<lparr>message_content = Str ''{"score":80}''\<rparr>\<close>
      and ftext = \<open>''{"score":80}''\<close>
      and v = \<open>JObj [(''score'', JNum 80)]\<close>
      and sess = idle_session]
  by (simp add: demo_env_def demo_request_def demo_pdf_def demo_png_def demo_parse_def
        demo_pdf_item_def demo_png_item_def demo_conversion_def demo_draft_def feedbackText_def)

subsection \<open>The cleanup\<close>

text \<open>
  C2, as stated: when the run ends the status text is reset to idle. It is not: after a
  successful run, and after a run that fails at the authentication check, the status text
  differs from the idle one (the \<^verbatim>\<open>finally\<close> block of lines 146-148 resets only the flag).
\<close>

theorem status_not_reset_counterexample:
  "statusText (snd (handleAnalyze demo_env demo_request idle_session))
     = ''Analysis complete, redirecting...''
   \<and> statusText (snd (handleAnalyze unauthenticated_env demo_request idle_session))
     = ''Error: Please sign in to upload files''
   \<and> statusText idle_session = '' ''
   \<and> statusText (snd (handleAnalyze demo_env demo_request idle_session)) \<noteq> statusText idle_session
   \<and> statusText (snd (handleAnalyze unauthenticated_env demo_request idle_session))
       \<noteq> statusText idle_session"
  by (simp add: stage_defs state_defs feedbackText_def demo_defs unauthenticated_env_def)

text \<open>
  C2, amended: on every exit path, success or any failure, the processing flag is false
  when the run ends, and resetting it is the last thing the run does; the status text is
  not reset: it stays at the last text the run set, which is never the idle text.
\<close>

theorem processing_flag_reset:
  "isProcessing (snd (handleAnalyze env req sess)) = False
   \<and> last (trace (snd (handleAnalyze env req sess))) = SetIsProcessing False
   \<and> status_texts (trace (snd (handleAnalyze env req sess))) \<noteq> []
   \<and> statusText (snd (handleAnalyze env req sess))
       = last (status_texts (trace (snd (handleAnalyze env req sess))))
   \<and> statusText (snd (handleAnalyze env req sess)) \<noteq> statusText idle_session"
proof -
  obtain c s where run: "handleAnalyze env req sess = (c, s)"
    by (cases "handleAnalyze env req sess")
  with handleAnalyze_settled [of env req sess]
  have st: "settled (c, s)" and flag: "isProcessing s = False"
    and final: "last (trace s) = SetIsProcessing False"
    by simp_all
  have tr: "tracked s"
    using st by (cases c) (simp_all add: settled_def)
  then have shown: "statusText s \<in> set (status_texts (trace s))"
    unfolding tracked_def using last_in_set by metis
  have "statusText s \<noteq> '' ''"
  proof (cases c)
    case Done
    with st show ?thesis by (auto simp add: settled_def split: if_splits)
  next
    case (Thrown e)
    with st have "'' '' \<notin> set (status_texts (trace s))"
      by (auto simp add: settled_def in_progress_def list_all_iff)
    with shown show ?thesis by metis
  qed
  with run flag final tr show ?thesis
    by (simp add: tracked_def idle_session_def)
qed

theorem processing_flag_reset_witness:
  "isProcessing (snd (handleAnalyze failing_store_env demo_request idle_session)) = False
   \<and> statusText (snd (handleAnalyze failing_store_env demo_request idle_session))
       = ''Error: quota exceeded''"
  using processing_flag_reset [of failing_store_env demo_request idle_session]
  by (simp add: stage_defs state_defs demo_defs failing_store_env_def)

subsection \<open>Validation\<close>

text \<open>
  C3: whenever the Auth Gate reports that the user is not authenticated, the run fails with
  the message of the unauthenticated case and the Blob Store upload is invoked zero times;
  indeed no collaborator is called at all.
\<close>

theorem unauthenticated_no_upload:
  assumes "\<not> isAuthenticated env"
  shows "fst (handleAnalyze env req sess) = Done
       \<and> statusText (snd (handleAnalyze env req sess)) = ''Error: Please sign in to upload files''
       \<and> upload_calls (trace (snd (handleAnalyze env req sess))) = []
       \<and> trace (snd (handleAnalyze env req sess)) =
           [SetIsProcessing True, SetStatusText ''Error: Please sign in to upload files'',
            SetIsProcessing False]"
  using assms by (simp add: stage_defs state_defs)

theorem unauthenticated_no_upload_witness:
  "\<not> isAuthenticated unauthenticated_env
   \<and> statusText (snd (handleAnalyze unauthenticated_env demo_request idle_session))
       = ''Error: Please sign in to upload files''
   \<and> upload_calls (trace (snd (handleAnalyze unauthenticated_env demo_request idle_session))) = []"
  using unauthenticated_no_upload [of unauthenticated_env demo_request idle_session]
  by (simp add: unauthenticated_env_def demo_env_def)

text \<open>
  C4, as stated: every input file whose declared type does not contain \<^verbatim>\<open>pdf\<close> makes the
  run fail with the invalid-file-type message. It fails for an unauthenticated user: the
  authentication check of lines 36-39 comes first and reports its own message.
\<close>

theorem non_pdf_unauthenticated_counterexample:
  "\<not> str_includes (file_type (req_file png_request)) ''pdf''
   \<and> statusText (snd (handleAnalyze unauthenticated_env png_request idle_session))
       = ''Error: Please sign in to upload files''
   \<and> statusText (snd (handleAnalyze unauthenticated_env png_request idle_session))
       \<noteq> ''Error: Please upload a PDF file''"
  by (simp add: stage_defs state_defs demo_defs unauthenticated_env_def png_request_def)

text \<open>
  C4, amended: for an authenticated user, every input file whose declared type does not
  contain \<^verbatim>\<open>pdf\<close> makes the run fail with the invalid-file-type message before any upload:
  the Blob Store is never called, nor is any other collaborator.
\<close>

theorem non_pdf_rejected:
  assumes "isAuthenticated env" and "\<not> str_includes (file_type (req_file req)) ''pdf''"
  shows "statusText (snd (handleAnalyze env req sess)) = ''Error: Please upload a PDF file''
       \<and> upload_calls (trace (snd (handleAnalyze env req sess))) = []
       \<and> trace (snd (handleAnalyze env req sess)) =
           [SetIsProcessing True, SetStatusText ''Error: Please upload a PDF file'',
            SetIsProcessing False]"
  using assms by (simp add: stage_defs state_defs)

theorem non_pdf_rejected_witness:
  "isAuthenticated demo_env
   \<and> \<not> str_includes (file_type (req_file png_request)) ''pdf''
   \<and> statusText (snd (handleAnalyze demo_env png_request idle_session))
       = ''Error: Please upload a PDF file''
   \<and> upload_calls (trace (snd (handleAnalyze demo_env png_request idle_session))) = []"
  using non_pdf_rejected [of demo_env png_request idle_session]
  by (simp add: demo_env_def demo_png_def png_request_def)

subsection \<open>Rasterization\<close>



subsection \<open>Feedback\<close>

text \<open>
  C6: in every run in which both uploads and the draft write succeed and the Feedback
  Service returns nothing, the run fails with the message of the unavailable feedback and
  makes no second write: the only \<^verbatim>\<open>set\<close> call is the draft, whose feedback is the empty
  string, and it is what the store holds for the key \<^verbatim>\<open>"resume:" + id\<close> afterwards.
\<close>

theorem null_feedback_keeps_draft:
  assumes "isAuthenticated (env :: 'n env)"
    and "str_includes (file_type (req_file req)) ''pdf''"
    and "fs_upload env 0 (req_file req) = Returns (Some uploadedFile)"
    and "convertPdfToImage env (req_file req) = Returns imageFile"
    and "conv_file imageFile = Some img"
    and "file_size img \<noteq> 0"
    and "fs_upload env 1 img = Returns (Some uploadedImage)"
    and "generateUUID env = Returns uuid"
    and "kv_set env 0 (''resume:'' @ uuid)
           (JSON_stringify env (draftData req uuid uploadedFile uploadedImage)) = Returns ()"
    and "ai_feedback env (path uploadedFile)
           (prepareInstructions env (req_jobTitle req) (req_jobDescription req)) = Returns None"
  shows "statusText (snd (handleAnalyze env req sess)) = ''Error: Failed to analyze resume''
       \<and> kv_calls (trace (snd (handleAnalyze env req sess))) =
           [(''resume:'' @ uuid, JSON_stringify env (draftData req uuid uploadedFile uploadedImage))]
       \<and> feedback (draftData req uuid uploadedFile uploadedImage :: 'n resume_data) = JStr ''''
       \<and> apply_sets (kv_calls (trace (snd (handleAnalyze env req sess)))) store (''resume:'' @ uuid) =
           Some (JSON_stringify env (draftData req uuid uploadedFile uploadedImage))"
  using assms by (simp add: stage_defs state_defs draftData_def)

theorem null_feedback_keeps_draft_witness:
  "statusText (snd (handleAnalyze no_feedback_env demo_request idle_session))
     = ''Error: Failed to analyze resume''
   \<and> kv_calls (trace (snd (handleAnalyze no_feedback_env demo_request idle_session)))
     = [(''resume:'' @ ''id-1'', demo_stringify demo_draft)]
   \<and> apply_sets (kv_calls (trace (snd (handleAnalyze no_feedback_env demo_request idle_session))))
        Map.empty (''resume:'' @ ''id-1'')
     = Some (demo_stringify demo_draft)"
  using null_feedback_keeps_draft [where env = no_feedback_env
      and req = demo_request
      and uploadedFile = demo_pdf_item
      and imageFile = demo_conversion
      and img = demo_png
      and uploadedImage = demo_png_item
      and uuid = "''id-1''"
      and sess = idle_session
      and store = Map.empty]
  by (simp add: no_feedback_env_def demo_env_def demo_request_def demo_pdf_def demo_png_def
        demo_pdf_item_def demo_png_item_def demo_conversion_def demo_draft_def)

text \<open>
  C7: the text of the response is taken from either shape of its content: a plain string
  is used as it is, and of a sequence of blocks the text of the first block is used. Hence
  a run whose Feedback Service answers with a sequence of blocks is the same run, in its
  result, its final state and its whole trace, as one whose service answers with the plain
  string that is the first block's text. The instance below it is the scenario of the
  array content \<^verbatim>\<open>[{text: '{"score":50}'}]\<close>, whose second write carries the feedback
  \<^verbatim>\<open>{score: 50}\<close>, as does the run answered with the plain string.
\<close>

theorem content_shapes_uniform:
  "feedbackText \<lparr>message_content = Str t\<rparr> = Returns t
   \<and> feedbackText \<lparr>message_content = Blocks (b # bs)\<rparr> = Returns (block_text b)
   \<and> handleAnalyze (env\<lparr>ai_feedback := \<lambda>p i. Returns (Some \<lparr>message_content = Blocks (b # bs)\<rparr>)\<rparr>)
        req sess
     = handleAnalyze (env\<lparr>ai_feedback := \<lambda>p i. Returns (Some \<lparr>message_content = Str (block_text b)\<rparr>)\<rparr>)
        req sess"
  by (simp add: stage_defs feedbackText_def Let_def
        split: outcome.splits option.splits content.splits list.splits)

theorem content_shapes_uniform_witness:
  \<open>kv_calls (trace (snd (handleAnalyze blocks_feedback_env demo_request idle_session)))
     = [(''resume:'' @ ''id-1'', demo_stringify demo_draft),
        (''resume:'' @ ''id-1'', demo_stringify (demo_draft\<lparr>feedback := JObj [(''score'', JNum 50)]\<rparr>))]
   \<and> handleAnalyze blocks_feedback_env demo_request idle_session
     = handleAnalyze string_feedback_env demo_request idle_session\<close>
  using content_shapes_uniform [of \<open>''{"score":50}''\<close> \<open>\<lparr>block_text = ''{"score":50}''\<rparr>\<close> "[]"
      demo_env demo_request idle_session]
  by (simp add: blocks_feedback_env_def string_feedback_env_def stage_defs state_defs
        feedbackText_def demo_env_def demo_request_def demo_pdf_def demo_png_def demo_parse_def
        demo_pdf_item_def demo_png_item_def demo_draft_def draftData_def)

subsection \<open>Failures stay inside the run\<close>




subsection \<open>The media-type check\<close>

text \<open>
  C10: the validation of the media type is a case-sensitive test for the substring
  \<^verbatim>\<open>pdf\<close>. For an authenticated user, a file declared as \<^verbatim>\<open>application/PDF\<close> is rejected
  as an invalid file type, while a file declared as \<^verbatim>\<open>text/pdfx\<close> passes the validation:
  the first upload the run makes is that of this file.
\<close>

theorem media_type_check_case_sensitive:
  assumes "isAuthenticated env"
  shows "str_includes t ''pdf'' = sublist ''pdf'' t
   \<and> statusText (snd (handleAnalyze env
         (req\<lparr>req_file := (req_file req)\<lparr>file_type := ''application/PDF''\<rparr>\<rparr>) sess))
       = ''Error: Please upload a PDF file''
   \<and> take 1 (upload_calls (trace (snd (handleAnalyze env
         (req\<lparr>req_file := (req_file req)\<lparr>file_type := ''text/pdfx''\<rparr>\<rparr>) sess))))
       = [(req_file req)\<lparr>file_type := ''text/pdfx''\<rparr>]"
proof -
  have rejected:
    "statusText (snd (handleAnalyze env
         (req\<lparr>req_file := (req_file req)\<lparr>file_type := ''application/PDF''\<rparr>\<rparr>) sess))
       = ''Error: Please upload a PDF file''"
    using assms by (simp add: stage_defs state_defs)
  have "prefix [SetIsProcessing True, SetStatusText ''Uploading the file...'',
                Upload ((req_file req)\<lparr>file_type := ''text/pdfx''\<rparr>)]
          (trace (snd (handleAnalyze env
             (req\<lparr>req_file := (req_file req)\<lparr>file_type := ''text/pdfx''\<rparr>\<rparr>) sess)))"
    using valid_input_is_uploaded
            [of env "req\<lparr>req_file := (req_file req)\<lparr>file_type := ''text/pdfx''\<rparr>\<rparr>" sess] assms
    by simp
  then have accepted:
    "take 1 (upload_calls (trace (snd (handleAnalyze env
         (req\<lparr>req_file := (req_file req)\<lparr>file_type := ''text/pdfx''\<rparr>\<rparr>) sess))))
       = [(req_file req)\<lparr>file_type := ''text/pdfx''\<rparr>]"
    by (auto simp: prefix_def upload_calls_append)
  show ?thesis
    using rejected accepted by (simp add: str_includes_sublist)
qed

theorem media_type_check_case_sensitive_witness:
  "isAuthenticated demo_env
   \<and> \<not> str_includes (file_type (req_file upper_case_request)) ''pdf''
   \<and> statusText (snd (handleAnalyze demo_env upper_case_request idle_session))
       = ''Error: Please upload a PDF file''
   \<and> str_includes (file_type (req_file pdfx_request)) ''pdf''
   \<and> take 1 (upload_calls (trace (snd (handleAnalyze demo_env pdfx_request idle_session))))
       = [req_file pdfx_request]"
  using media_type_check_case_sensitive [of demo_env "[]" demo_request idle_session]
  by (simp add: demo_env_def demo_request_def upper_case_request_def pdfx_request_def)

end
